theory Spec2Isabelle
  imports Complex_Main "HOL-Library.Sublist"
begin

section \<open>Phase reports and the outcome reduction of \<open>tests/conftest.py\<close>\<close>

text \<open>
  A phase report of the host runner, as far as \<open>pytest_runtest_teardown\<close> reads it:
  the phase name \<open>rep.when\<close>, the outcome string \<open>rep.outcome\<close>, the attribute
  \<open>rep.duration\<close> (\<open>None\<close> when \<open>getattr(r, "duration", None)\<close> is \<open>None\<close>; Python's
  float is a rational here) and the result of \<open>str(r.longrepr)\<close>, which is \<open>None\<close> when the
  stringification raises.
\<close>

record rep =
  rep_when :: string
  rep_outcome :: string
  rep_duration :: "rat option"
  rep_longrepr :: "string option"

text \<open>\<open>_phase_outcome\<close>: \<open>getattr(rep, "outcome", None) if rep else None\<close>.\<close>

definition phase_outcome :: "rep option \<Rightarrow> string option" where
  "phase_outcome r = (case r of None \<Rightarrow> None | Some x \<Rightarrow> Some (rep_outcome x))"

text \<open>The \<open>if\<close>/\<open>elif\<close> chain that sets \<open>final_outcome\<close>, in the source's order.\<close>

definition final_outcome :: "rep option \<Rightarrow> rep option \<Rightarrow> rep option \<Rightarrow> string" where
  "final_outcome rep_setup rep_call rep_teardown =
     (if phase_outcome rep_setup = Some ''failed'' then ''failed''
      else if phase_outcome rep_call = Some ''failed'' then ''failed''
      else if phase_outcome rep_teardown = Some ''failed'' then ''failed''
      else if phase_outcome rep_setup = Some ''skipped'' \<or> phase_outcome rep_call = Some ''skipped''
        then ''skipped''
      else ''passed'')"

text \<open>
  The loop that adds up the durations of the phases that are present. The sums here are
  exact; Python rounds each sum to the nearest binary64 number, which can move
  \<open>duration_seconds\<close> by one unit in the last of its six decimals.
\<close>

fun add_durations :: "rat \<Rightarrow> rep option list \<Rightarrow> rat" where
  "add_durations acc [] = acc"
| "add_durations acc (r # rs) =
     (case r of
        None \<Rightarrow> add_durations acc rs
      | Some x \<Rightarrow>
          (case rep_duration x of
             None \<Rightarrow> add_durations acc rs
           | Some d \<Rightarrow> add_durations (acc + d) rs))"

definition total_duration :: "rep option \<Rightarrow> rep option \<Rightarrow> rep option \<Rightarrow> rat" where
  "total_duration rep_setup rep_call rep_teardown =
     add_durations 0 [rep_setup, rep_call, rep_teardown]"

text \<open>\<open>round(total_duration, 6)\<close>: to six decimals, a tie going to the even neighbour.\<close>

definition round6 :: "rat \<Rightarrow> rat" where
  "round6 x =
     (let y = x * 1000000; f = \<lfloor>y\<rfloor>; d = y - of_int f
      in of_int (if d < 1 / 2 then f else if 1 / 2 < d then f + 1
                 else if even f then f else f + 1) / 1000000)"

definition placeholder :: string where
  "placeholder = ''Test failed (unable to stringify longrepr).''"

text \<open>
  \<open>str(r.longrepr)\<close> inside its \<open>try\<close>: the string, or the placeholder when the
  stringification raises.
\<close>

definition failure_text :: "rep \<Rightarrow> string" where
  "failure_text r = (case rep_longrepr r of Some s \<Rightarrow> s | None \<Rightarrow> placeholder)"

text \<open>
  The \<open>for r in (rep_call, rep_setup, rep_teardown)\<close> loop: the first report whose outcome
  is \<open>"failed"\<close> gives the text and ends the loop (\<open>break\<close>).
\<close>

fun first_failed_text :: "rep option list \<Rightarrow> string option" where
  "first_failed_text [] = None"
| "first_failed_text (r # rs) =
     (case r of
        None \<Rightarrow> first_failed_text rs
      | Some x \<Rightarrow>
          if rep_outcome x = ''failed'' then Some (failure_text x)
          else first_failed_text rs)"

definition error_text :: "rep option \<Rightarrow> rep option \<Rightarrow> rep option \<Rightarrow> string option" where
  "error_text rep_setup rep_call rep_teardown =
     (if final_outcome rep_setup rep_call rep_teardown = ''failed''
      then first_failed_text [rep_call, rep_setup, rep_teardown]
      else None)"


section \<open>JSON values and the executed-test record\<close>

text \<open>
  What \<open>json.loads\<close> returns and \<open>json.dumps\<close> takes. A Python \<open>dict\<close> keeps its
  insertion order, so an object is an association list.
\<close>

datatype json =
    JNull
  | JBool bool
  | JInt int
  | JNum rat
  | JStr string
  | JArr "json list"
  | JObj "(string \<times> json) list"

record environment_snapshot =
  env_base_url :: string
  env_headless :: string
  env_python :: string
  env_os :: string

text \<open>The \<open>record\<close> dictionary built by \<open>pytest_runtest_teardown\<close>, key by key.\<close>

record test_record =
  run_id :: string
  run_started_at :: string
  recorded_at :: string
  nodeid :: string
  outcome :: string
  duration_seconds :: rat
  error :: "string option"
  environment :: environment_snapshot

definition record_json :: "test_record \<Rightarrow> json" where
  "record_json r =
     JObj [(''run_id'', JStr (run_id r)),
           (''run_started_at'', JStr (run_started_at r)),
           (''recorded_at'', JStr (recorded_at r)),
           (''nodeid'', JStr (nodeid r)),
           (''outcome'', JStr (outcome r)),
           (''duration_seconds'', JNum (duration_seconds r)),
           (''error'', (case error r of None \<Rightarrow> JNull | Some s \<Rightarrow> JStr s)),
           (''environment'',
              JObj [(''base_url'', JStr (env_base_url (environment r))),
                    (''headless'', JStr (env_headless (environment r))),
                    (''python'', JStr (env_python (environment r))),
                    (''os'', JStr (env_os (environment r)))])]"

section \<open>Naming utilities\<close>

text \<open>
  Python's \<open>str.replace(old, new)\<close>: the occurrences of \<open>old\<close> are replaced from left to
  right without overlap; an empty \<open>old\<close> matches before every character and at the end.
\<close>

function replace :: "string \<Rightarrow> string \<Rightarrow> string \<Rightarrow> string" where
  "replace old new s =
     (if old = [] then new @ concat (map (\<lambda>c. c # new) s)
      else if s = [] then []
      else if prefix old s then new @ replace old new (drop (length old) s)
      else hd s # replace old new (tl s))"
  by pat_completeness auto
termination
  by (relation "measure (\<lambda>(old, new, s). length s)") auto

declare replace.simps [simp del]

definition safe_filename :: "string \<Rightarrow> string" where
  "safe_filename text =
     (let safe = replace ''::'' ''__'' (replace [CHR 0x5C] ''__'' (replace ''/'' ''__'' text));
          safe = replace '' '' ''_'' (replace '']'' ''_'' (replace ''['' ''_'' safe));
          safe = replace '':'' ''_'' safe
      in safe)"

section \<open>The report store\<close>

text \<open>
  The file system is a map from a path to the text of the file there. \<open>json.loads\<close> and
  \<open>json.dumps\<close> belong to the Python library: the store takes them as \<open>loads\<close> (\<open>None\<close>
  when it raises) and \<open>dumps\<close>. Writing a file is taken to succeed.
\<close>

type_synonym fs = "string \<rightharpoonup> string"

text \<open>\<open>isinstance(data, list)\<close>.\<close>

fun is_list :: "json \<Rightarrow> bool" where
  "is_list (JArr xs) = True"
| "is_list _ = False"

fun elements :: "json \<Rightarrow> json list" where
  "elements (JArr xs) = xs"
| "elements _ = []"

text \<open>
  The list \<open>_append_json_array\<close> starts from: the parsed content of an existing file when
  that is a list, and the empty list when the file is absent, when reading or parsing
  raises, and when the parsed value is not a list.
\<close>

definition existing_data :: "(string \<Rightarrow> json option) \<Rightarrow> fs \<Rightarrow> string \<Rightarrow> json list" where
  "existing_data loads files file_path =
     (case files file_path of
        Some text \<Rightarrow>
          (case loads text of
             Some data \<Rightarrow> if \<not> is_list data then [] else elements data
           | None \<Rightarrow> [])
      | None \<Rightarrow> [])"

definition append_json_array ::
  "(string \<Rightarrow> json option) \<Rightarrow> (json \<Rightarrow> string) \<Rightarrow> fs \<Rightarrow> string \<Rightarrow> json \<Rightarrow> fs" where
  "append_json_array loads dumps files file_path record =
     files(file_path \<mapsto> dumps (JArr (existing_data loads files file_path @ [record])))"

text \<open>\<open>_append_jsonl\<close>: opening with mode \<open>"a"\<close> creates a missing file and writes at the end.\<close>

definition append_jsonl :: "(json \<Rightarrow> string) \<Rightarrow> fs \<Rightarrow> string \<Rightarrow> json \<Rightarrow> fs" where
  "append_jsonl dumps files file_path record =
     files(file_path \<mapsto>
       (case files file_path of None \<Rightarrow> [] | Some text \<Rightarrow> text) @ dumps record @ [CHR 0x0A])"

text \<open>A sequence of appends to one file, one call of \<open>_append_json_array\<close> per record.\<close>

fun append_all ::
  "(string \<Rightarrow> json option) \<Rightarrow> (json \<Rightarrow> string) \<Rightarrow> fs \<Rightarrow> string \<Rightarrow> json list \<Rightarrow> fs" where
  "append_all loads dumps files file_path [] = files"
| "append_all loads dumps files file_path (r # rs) =
     append_all loads dumps (append_json_array loads dumps files file_path r) file_path rs"

section \<open>Run state and reporting hooks\<close>

text \<open>
  What a hook reads from outside the program at one call: the clock (as
  \<open>_now_iso_ist\<close> and \<open>_run_file_stamp\<close> format it), the working directory, the process
  environment and the two \<open>platform\<close> strings.
\<close>

record sys =
  now_iso :: string
  now_stamp :: string
  cwd :: string
  environ :: "string \<rightharpoonup> string"
  python_version :: string
  os_platform :: string

text \<open>\<open>os.getenv(key, default)\<close>.\<close>

definition getenv :: "sys \<Rightarrow> string \<Rightarrow> string \<Rightarrow> string" where
  "getenv s key dflt = (case environ s key of None \<Rightarrow> dflt | Some v \<Rightarrow> v)"

text \<open>The attributes \<open>pytest_configure\<close> attaches to the \<open>config\<close> object.\<close>

record config =
  cfg_run_started_at :: string
  cfg_run_stamp :: string
  cfg_run_id :: string
  cfg_results :: "test_record list"
  cfg_reports_dir :: string
  cfg_reports_runs_dir :: string
  cfg_reports_tests_dir :: string
  cfg_reports_history_jsonl :: string

text \<open>
  The global \<open>_PYTEST_CONFIG\<close> (\<open>None\<close> until \<open>pytest_configure\<close> has run), the files and
  the directories made by \<open>_ensure_dir\<close> (the parents \<open>mkdir\<close> makes on the way are not
  tracked).
\<close>

record state =
  PYTEST_CONFIG :: "config option"
  files :: fs
  dirs :: "string set"

definition ensure_dir :: "string \<Rightarrow> state \<Rightarrow> state" where
  "ensure_dir path st = st\<lparr>dirs := insert path (dirs st)\<rparr>"

text \<open>
  \<open>base / name\<close> of \<open>pathlib\<close> on a POSIX system, for an absolute \<open>base\<close> without a
  trailing slash (as \<open>Path.cwd()\<close> gives it, the root \<open>/\<close> apart) and a \<open>name\<close> without a slash:
  the root takes no second slash.
\<close>

definition path_join :: "string \<Rightarrow> string \<Rightarrow> string" where
  "path_join base name = (if base = ''/'' then base @ name else base @ ''/'' @ name)"

text \<open>The attributes as \<open>pytest_configure\<close> sets them, with the result list empty.\<close>

definition initial_config :: "sys \<Rightarrow> config" where
  "initial_config s =
     (let reports = path_join (cwd s) ''reports''
      in \<lparr>cfg_run_started_at = now_iso s,
          cfg_run_stamp = now_stamp s,
          cfg_run_id = ''run_'' @ now_stamp s,
          cfg_results = [],
          cfg_reports_dir = reports,
          cfg_reports_runs_dir = reports @ ''/runs'',
          cfg_reports_tests_dir = reports @ ''/tests'',
          cfg_reports_history_jsonl = reports @ ''/history.jsonl''\<rparr>)"

definition pytest_configure :: "sys \<Rightarrow> state \<Rightarrow> state" where
  "pytest_configure s st =
     (let config = initial_config s
      in ensure_dir (cfg_reports_tests_dir config)
           (ensure_dir (cfg_reports_runs_dir config) (st\<lparr>PYTEST_CONFIG := Some config\<rparr>)))"

text \<open>
  A test item: its node id and the attribute \<open>_rep_by_phase\<close>, absent (\<open>None\<close>) until the
  first report is attached.
\<close>

record item =
  item_nodeid :: string
  rep_by_phase :: "(string \<rightharpoonup> rep) option"

definition pytest_runtest_makereport :: "item \<Rightarrow> rep \<Rightarrow> item" where
  "pytest_runtest_makereport it r =
     (let by_phase = (case rep_by_phase it of None \<Rightarrow> Map.empty | Some m \<Rightarrow> m)
      in it\<lparr>rep_by_phase := Some (by_phase(rep_when r \<mapsto> r))\<rparr>)"

text \<open>The dictionary \<open>record\<close> of \<open>pytest_runtest_teardown\<close>.\<close>

definition make_record :: "sys \<Rightarrow> config \<Rightarrow> item \<Rightarrow> test_record" where
  "make_record s config it =
     (let reps = (case rep_by_phase it of None \<Rightarrow> Map.empty | Some m \<Rightarrow> m);
          rep_setup = reps ''setup'';
          rep_call = reps ''call'';
          rep_teardown = reps ''teardown''
      in \<lparr>run_id = cfg_run_id config,
          run_started_at = cfg_run_started_at config,
          recorded_at = now_iso s,
          nodeid = item_nodeid it,
          outcome = final_outcome rep_setup rep_call rep_teardown,
          duration_seconds = round6 (total_duration rep_setup rep_call rep_teardown),
          error = error_text rep_setup rep_call rep_teardown,
          environment =
            \<lparr>env_base_url = getenv s ''BASE_URL'' [],
             env_headless = getenv s ''HEADLESS'' ''true'',
             env_python = python_version s,
             env_os = os_platform s\<rparr>\<rparr>)"

definition per_test_file :: "config \<Rightarrow> item \<Rightarrow> string" where
  "per_test_file config it =
     cfg_reports_tests_dir config @ ''/'' @ safe_filename (item_nodeid it) @ ''.json''"

text \<open>
  \<open>pytest_runtest_teardown\<close>: nothing when the global is unset; otherwise the record goes
  to the in-memory list, to the per-test array file (written with \<open>indent=2\<close>, here
  \<open>dumps_indent\<close>) and to the history log (one compact line, here \<open>dumps\<close>).
\<close>

definition pytest_runtest_teardown ::
  "(string \<Rightarrow> json option) \<Rightarrow> (json \<Rightarrow> string) \<Rightarrow> (json \<Rightarrow> string) \<Rightarrow> sys \<Rightarrow> state \<Rightarrow> item \<Rightarrow> state" where
  "pytest_runtest_teardown loads dumps_indent dumps s st it =
     (case PYTEST_CONFIG st of
        None \<Rightarrow> st
      | Some config \<Rightarrow>
          (let record = make_record s config it;
               config' = config\<lparr>cfg_results := cfg_results config @ [record]\<rparr>;
               files1 = append_json_array loads dumps_indent (files st)
                          (per_test_file config it) (record_json record);
               files2 = append_jsonl dumps files1
                          (cfg_reports_history_jsonl config) (record_json record)
           in st\<lparr>PYTEST_CONFIG := Some config', files := files2\<rparr>))"

text \<open>
  The host runner calls the teardown hook once for each test it executes; a run hands the
  hook the tests in execution order, each with the clock and environment of its call.
\<close>

fun run_tests ::
  "(string \<Rightarrow> json option) \<Rightarrow> (json \<Rightarrow> string) \<Rightarrow> (json \<Rightarrow> string) \<Rightarrow> state \<Rightarrow> (sys \<times> item) list \<Rightarrow> state" where
  "run_tests loads dumps_indent dumps st [] = st"
| "run_tests loads dumps_indent dumps st ((s, it) # rest) =
     run_tests loads dumps_indent dumps
       (pytest_runtest_teardown loads dumps_indent dumps s st it) rest"

text \<open>
  The host runner's protocol for one test, as far as the hooks of this file take part in
  it. Each phase is run first; its report is made from the finished phase and handed to
  \<open>pytest_runtest_makereport\<close> afterwards (the wrapper takes the \<open>call\<close> of the phase and
  reads the report after its \<open>yield\<close>). The call phase is run only when the setup report
  passed. \<open>pytest_runtest_teardown\<close> is a hook of the teardown phase itself, so it runs
  before the teardown report exists: the item it reads carries the setup report and, when
  the call phase ran, the call report. The result is the state after the hook and the item
  after the last report.
\<close>

definition runtestprotocol ::
  "(string \<Rightarrow> json option) \<Rightarrow> (json \<Rightarrow> string) \<Rightarrow> (json \<Rightarrow> string) \<Rightarrow> sys \<Rightarrow> state \<Rightarrow>
   string \<Rightarrow> rep \<Rightarrow> rep \<Rightarrow> rep \<Rightarrow> state \<times> item" where
  "runtestprotocol loads dumps_indent dumps s st node setup_rep call_rep teardown_rep =
     (let it0 = \<lparr>item_nodeid = node, rep_by_phase = None\<rparr>;
          it1 = pytest_runtest_makereport it0 (setup_rep\<lparr>rep_when := ''setup''\<rparr>);
          it2 = (if rep_outcome setup_rep = ''passed''
                 then pytest_runtest_makereport it1 (call_rep\<lparr>rep_when := ''call''\<rparr>)
                 else it1);
          st' = pytest_runtest_teardown loads dumps_indent dumps s st it2;
          it3 = pytest_runtest_makereport it2 (teardown_rep\<lparr>rep_when := ''teardown''\<rparr>)
      in (st', it3))"

section \<open>The run summary\<close>

record totals =
  total :: int
  passed :: int
  failed :: int
  skipped :: int

record summary =
  sum_run_id :: string
  sum_run_started_at :: string
  sum_run_finished_at :: string
  sum_exitstatus :: int
  sum_totals :: totals
  sum_results :: "test_record list"

text \<open>\<open>sum(1 for r in results if r["outcome"] == value)\<close>.\<close>

definition count_outcome :: "string \<Rightarrow> test_record list \<Rightarrow> int" where
  "count_outcome v results = sum_list (map (\<lambda>r. 1) (filter (\<lambda>r. outcome r = v) results))"

definition make_summary :: "sys \<Rightarrow> config \<Rightarrow> int \<Rightarrow> summary" where
  "make_summary s config exitstatus =
     (let results = cfg_results config
      in \<lparr>sum_run_id = cfg_run_id config,
          sum_run_started_at = cfg_run_started_at config,
          sum_run_finished_at = now_iso s,
          sum_exitstatus = exitstatus,
          sum_totals =
            \<lparr>total = int (length results),
             passed = count_outcome ''passed'' results,
             failed = count_outcome ''failed'' results,
             skipped = count_outcome ''skipped'' results\<rparr>,
          sum_results = results\<rparr>)"

definition summary_json :: "summary \<Rightarrow> json" where
  "summary_json m =
     JObj [(''run_id'', JStr (sum_run_id m)),
           (''run_started_at'', JStr (sum_run_started_at m)),
           (''run_finished_at'', JStr (sum_run_finished_at m)),
           (''exitstatus'', JInt (sum_exitstatus m)),
           (''totals'',
              JObj [(''total'', JInt (total (sum_totals m))),
                    (''passed'', JInt (passed (sum_totals m))),
                    (''failed'', JInt (failed (sum_totals m))),
                    (''skipped'', JInt (skipped (sum_totals m)))]),
           (''results'', JArr (map record_json (sum_results m)))]"

text \<open>
  \<open>pytest_sessionfinish\<close>, for the \<open>session.config\<close> that \<open>pytest_configure\<close> filled: the
  summary is written to \<open>runs/<run_id>.json\<close>.
\<close>

definition pytest_sessionfinish :: "(json \<Rightarrow> string) \<Rightarrow> sys \<Rightarrow> config \<Rightarrow> int \<Rightarrow> fs \<Rightarrow> fs" where
  "pytest_sessionfinish dumps_indent s config exitstatus fls =
     fls(cfg_reports_runs_dir config @ ''/'' @ cfg_run_id config @ ''.json'' \<mapsto>
           dumps_indent (summary_json (make_summary s config exitstatus)))"

section \<open>Pre-flight checks and the authenticated page\<close>

datatype py_exn = ValueError | OSError | PlaywrightError

text \<open>
  What \<open>_is_reachable\<close> reads of \<open>urlparse(url)\<close>: the scheme, the host name (\<open>None\<close>
  when the URL has none) and the \<open>port\<close> property, which raises on a malformed port and
  is \<open>None\<close> when the URL names no port.
\<close>

record parse_result =
  pr_scheme :: string
  pr_hostname :: "string option"
  pr_port :: "py_exn + nat option"

text \<open>The port probed: the explicit one, or 443 for the scheme \<open>https\<close> and 80 otherwise.\<close>

definition default_port :: "parse_result \<Rightarrow> nat option \<Rightarrow> nat" where
  "default_port parsed p =
     (case p of None \<Rightarrow> if pr_scheme parsed = ''https'' then 443 else 80 | Some n \<Rightarrow> n)"

text \<open>
  The body of the \<open>try\<close> block. \<open>urlparse\<close> and \<open>socket.create_connection\<close> belong to the
  Python library and the network: each is a parameter that returns its value or the
  exception it raises (a failed resolution, a refused connection and a timeout are all
  exceptions of \<open>create_connection\<close>).
\<close>

definition is_reachable_try ::
  "(string \<Rightarrow> py_exn + parse_result) \<Rightarrow> (string \<Rightarrow> nat \<Rightarrow> rat \<Rightarrow> py_exn + unit) \<Rightarrow>
   string \<Rightarrow> rat \<Rightarrow> py_exn + bool" where
  "is_reachable_try urlparse create_connection url timeout_seconds =
     (case urlparse url of
        Inl e \<Rightarrow> Inl e
      | Inr parsed \<Rightarrow>
          (case pr_hostname parsed of
             None \<Rightarrow> Inr False
           | Some host \<Rightarrow>
               if host = [] then Inr False
               else
                 (case pr_port parsed of
                    Inl e \<Rightarrow> Inl e
                  | Inr p \<Rightarrow>
                      (case create_connection host (default_port parsed p) timeout_seconds of
                         Inl e \<Rightarrow> Inl e
                       | Inr u \<Rightarrow> Inr True))))"

text \<open>\<open>_is_reachable\<close>: \<open>except Exception: return False\<close> around the body.\<close>

definition is_reachable ::
  "(string \<Rightarrow> py_exn + parse_result) \<Rightarrow> (string \<Rightarrow> nat \<Rightarrow> rat \<Rightarrow> py_exn + unit) \<Rightarrow>
   string \<Rightarrow> rat \<Rightarrow> bool" where
  "is_reachable urlparse create_connection url timeout_seconds =
     (case is_reachable_try urlparse create_connection url timeout_seconds of
        Inl e \<Rightarrow> False
      | Inr b \<Rightarrow> b)"

text \<open>
  \<open>str.strip()\<close>: a character is a code point below 256, and these are the ones
  \<open>str.isspace\<close> accepts there.
\<close>

definition is_space :: "char \<Rightarrow> bool" where
  "is_space c =
     (let n = (of_char c :: nat)
      in (9 \<le> n \<and> n \<le> 13) \<or> (28 \<le> n \<and> n \<le> 32) \<or> n = 133 \<or> n = 160)"

definition strip :: "string \<Rightarrow> string" where
  "strip s = rev (dropWhile is_space (rev (dropWhile is_space s)))"

record creds =
  username :: string
  password :: string

definition credentials :: "sys \<Rightarrow> creds" where
  "credentials s =
     \<lparr>username = strip (getenv s ''TEST_USER'' []),
      password = strip (getenv s ''TEST_PASS'' [])\<rparr>"

text \<open>\<open>PW["base_url"]\<close> of \<open>pw_config.py\<close>.\<close>

definition base_url :: "sys \<Rightarrow> string" where
  "base_url s = getenv s ''BASE_URL'' ''http://localhost:3000''"

text \<open>
  What the fixture does to the outside, in order: the reachability probe and the actions
  on the page. The browser is a parameter \<open>perform\<close>: given the events so far and an
  action, it says whether the action raises.
\<close>

datatype event =
    Probe string
  | Goto string
  | Fill string string
  | Click string
  | WaitForLoadState string

fun do_actions ::
  "(event list \<Rightarrow> event \<Rightarrow> py_exn option) \<Rightarrow> event list \<Rightarrow> event list \<Rightarrow>
   event list \<times> py_exn option" where
  "do_actions perform trace [] = (trace, None)"
| "do_actions perform trace (a # rest) =
     (case perform trace a of
        Some e \<Rightarrow> (trace @ [a], Some e)
      | None \<Rightarrow> do_actions perform (trace @ [a]) rest)"

text \<open>\<open>LoginPage.login\<close> of \<open>pages/login_page.py\<close>.\<close>

definition login ::
  "(event list \<Rightarrow> event \<Rightarrow> py_exn option) \<Rightarrow> event list \<Rightarrow> string \<Rightarrow> string \<Rightarrow>
   event list \<times> py_exn option" where
  \<open>login perform trace user pass =
     do_actions perform trace
       [Fill (''[data-testid='' @ [CHR 0x22] @ ''login-username'' @ [CHR 0x22] @ '']'') user,
        Fill (''[data-testid='' @ [CHR 0x22] @ ''login-password'' @ [CHR 0x22] @ '']'') pass,
        Click (''[data-testid='' @ [CHR 0x22] @ ''login-submit'' @ [CHR 0x22] @ '']''),
        WaitForLoadState ''networkidle'']\<close>

text \<open>
  How a fixture ends: \<open>pytest.skip(reason)\<close>, an exception, or the returned page handed
  to the test body.
\<close>

datatype fixture_result = Skipped string | Raised py_exn | Returned

definition unreachable_reason :: "string \<Rightarrow> string" where
  "unreachable_reason url =
     ''BASE_URL not reachable: '' @ url @ ''. '' @
     ''Start your local app (if using localhost) or set BASE_URL to a reachable staging/demo URL.''"

definition missing_reason :: string where
  "missing_reason = ''Missing TEST_USER/TEST_PASS in .env. Please set them before running UI tests.''"

definition logged_in_page ::
  "(string \<Rightarrow> py_exn + parse_result) \<Rightarrow> (string \<Rightarrow> nat \<Rightarrow> rat \<Rightarrow> py_exn + unit) \<Rightarrow>
   (event list \<Rightarrow> event \<Rightarrow> py_exn option) \<Rightarrow> string \<Rightarrow> creds \<Rightarrow>
   event list \<times> fixture_result" where
  "logged_in_page urlparse create_connection perform url cr =
     (if \<not> is_reachable urlparse create_connection url 2
      then ([Probe url], Skipped (unreachable_reason url))
      else if username cr = [] \<or> password cr = []
      then ([Probe url], Skipped missing_reason)
      else
        (case do_actions perform [Probe url] [Goto url] of
           (trace, Some e) \<Rightarrow> (trace, Raised e)
         | (trace, None) \<Rightarrow>
             (case login perform trace (username cr) (password cr) of
                (trace', Some e) \<Rightarrow> (trace', Raised e)
              | (trace', None) \<Rightarrow> (trace', Returned))))"

section \<open>A small JSON writer and reader\<close>

text \<open>
  The store is stated for any \<open>loads\<close> and \<open>dumps\<close>. To run it on concrete files the
  theory has a writer and a reader of its own for the JSON that the harness produces: no
  indentation, integers and six-decimal numbers, strings with the quote and the backslash
  escaped. The reader gives \<open>None\<close> where \<open>json.loads\<close> raises.
\<close>

definition digit_char :: "int \<Rightarrow> char" where
  "digit_char d = char_of (48 + d)"

function dec :: "int \<Rightarrow> string" where
  "dec n = (if n < 10 then [digit_char n] else dec (n div 10) @ [digit_char (n mod 10)])"
  by pat_completeness auto
termination
  by (relation "measure nat") auto

declare dec.simps [simp del]

definition write_int :: "int \<Rightarrow> string" where
  "write_int i = (if i < 0 then ''-'' @ dec (- i) else dec i)"

text \<open>A rational is written with six decimals, which is what \<open>round6\<close> leaves.\<close>

definition write_num :: "rat \<Rightarrow> string" where
  "write_num r =
     (let n = \<lfloor>\<bar>r\<bar> * 1000000\<rfloor>;
          frac = dec (n mod 1000000)
      in (if r < 0 then ''-'' else []) @ dec (n div 1000000) @ ''.'' @
         replicate (6 - length frac) (CHR ''0'') @ frac)"

fun escape :: "string \<Rightarrow> string" where
  "escape [] = []"
| "escape (c # cs) =
     (if c = CHR 0x22 \<or> c = CHR 0x5C then CHR 0x5C # c # escape cs else c # escape cs)"

definition write_str :: "string \<Rightarrow> string" where
  "write_str s = [CHR 0x22] @ escape s @ [CHR 0x22]"

fun join :: "string list \<Rightarrow> string" where
  "join [] = []"
| "join [x] = x"
| "join (x # y # ys) = x @ '', '' @ join (y # ys)"

fun json_write :: "json \<Rightarrow> string" where
  "json_write JNull = ''null''"
| "json_write (JBool b) = (if b then ''true'' else ''false'')"
| "json_write (JInt i) = write_int i"
| "json_write (JNum r) = write_num r"
| "json_write (JStr s) = write_str s"
| "json_write (JArr xs) = ''['' @ join (map json_write xs) @ '']''"
| "json_write (JObj kvs) =
     ''{'' @ join (map (\<lambda>kv. write_str (fst kv) @ '': '' @ json_write (snd kv)) kvs) @ ''}''"

datatype token =
    TLBrack | TRBrack | TLBrace | TRBrace | TComma | TColon
  | TNull | TTrue | TFalse
  | TInt int | TNum rat | TStr string

fun read_str :: "string \<Rightarrow> string \<Rightarrow> (string \<times> string) option" where
  "read_str acc [] = None"
| "read_str acc (c # cs) =
     (if c = CHR 0x22 then Some (rev acc, cs)
      else if c = CHR 0x5C then
        (case cs of [] \<Rightarrow> None | d # ds \<Rightarrow> read_str (d # acc) ds)
      else read_str (c # acc) cs)"

definition is_digit :: "char \<Rightarrow> bool" where
  "is_digit c = (48 \<le> (of_char c :: int) \<and> (of_char c :: int) \<le> 57)"

definition digits_value :: "string \<Rightarrow> int" where
  "digits_value ds = foldl (\<lambda>a c. 10 * a + (of_char c - 48)) 0 ds"

definition read_number :: "string \<Rightarrow> (token \<times> string) option" where
  "read_number s =
     (let neg = (s \<noteq> [] \<and> hd s = CHR ''-'');
          s1 = (if neg then tl s else s);
          ds = takeWhile is_digit s1;
          s2 = dropWhile is_digit s1;
          sgn = (if neg then - 1 else 1)
      in if ds = [] then None
         else if s2 \<noteq> [] \<and> hd s2 = CHR ''.'' then
           (let fs = takeWhile is_digit (tl s2); s3 = dropWhile is_digit (tl s2)
            in if fs = [] then None
               else Some (TNum (of_int sgn * (of_int (digits_value ds) +
                                  of_int (digits_value fs) / of_int (10 ^ length fs))), s3))
         else Some (TInt (sgn * digits_value ds), s2))"

fun lex :: "nat \<Rightarrow> string \<Rightarrow> token list option" where
  "lex 0 s = (if s = [] then Some [] else None)"
| "lex (Suc n) [] = Some []"
| "lex (Suc n) (c # cs) =
     (if c = CHR '' '' \<or> c = CHR 0x0A \<or> c = CHR 0x0D \<or> c = CHR 0x09 then lex n cs
      else if c = CHR ''['' then map_option ((#) TLBrack) (lex n cs)
      else if c = CHR '']'' then map_option ((#) TRBrack) (lex n cs)
      else if c = CHR ''{'' then map_option ((#) TLBrace) (lex n cs)
      else if c = CHR ''}'' then map_option ((#) TRBrace) (lex n cs)
      else if c = CHR '','' then map_option ((#) TComma) (lex n cs)
      else if c = CHR '':'' then map_option ((#) TColon) (lex n cs)
      else if c = CHR 0x22 then
        (case read_str [] cs of
           None \<Rightarrow> None
         | Some (s, rest) \<Rightarrow> map_option ((#) (TStr s)) (lex n rest))
      else if c = CHR ''-'' \<or> is_digit c then
        (case read_number (c # cs) of
           None \<Rightarrow> None
         | Some (t, rest) \<Rightarrow> map_option ((#) t) (lex n rest))
      else if prefix ''null'' (c # cs) then map_option ((#) TNull) (lex n (drop 3 cs))
      else if prefix ''true'' (c # cs) then map_option ((#) TTrue) (lex n (drop 3 cs))
      else if prefix ''false'' (c # cs) then map_option ((#) TFalse) (lex n (drop 4 cs))
      else None)"



fun atom :: "token \<Rightarrow> json option" where
  "atom TNull = Some JNull"
| "atom TTrue = Some (JBool True)"
| "atom TFalse = Some (JBool False)"
| "atom (TInt i) = Some (JInt i)"
| "atom (TNum r) = Some (JNum r)"
| "atom (TStr s) = Some (JStr s)"
| "atom _ = None"

definition starts_with :: "token \<Rightarrow> token list \<Rightarrow> bool" where
  "starts_with t ts = (case ts of [] \<Rightarrow> False | u # rest \<Rightarrow> u = t)"

fun key_of :: "token \<Rightarrow> string option" where
  "key_of (TStr k) = Some k"
| "key_of _ = None"

fun parse_value :: "nat \<Rightarrow> token list \<Rightarrow> (json \<times> token list) option"
  and parse_items :: "nat \<Rightarrow> token list \<Rightarrow> (json list \<times> token list) option"
  and parse_members :: "nat \<Rightarrow> token list \<Rightarrow> ((string \<times> json) list \<times> token list) option" where
  "parse_value 0 ts = None"
| "parse_value (Suc n) [] = None"
| "parse_value (Suc n) (t # ts) =
     (if t = TLBrack then
        (if starts_with TRBrack ts then Some (JArr [], tl ts)
         else map_option (\<lambda>(xs, rest). (JArr xs, rest)) (parse_items n ts))
      else if t = TLBrace then
        (if starts_with TRBrace ts then Some (JObj [], tl ts)
         else map_option (\<lambda>(kvs, rest). (JObj kvs, rest)) (parse_members n ts))
      else map_option (\<lambda>v. (v, ts)) (atom t))"
| "parse_items 0 ts = None"
| "parse_items (Suc n) ts =
     (case parse_value n ts of
        None \<Rightarrow> None
      | Some (v, rest) \<Rightarrow>
          if starts_with TComma rest
          then map_option (\<lambda>(vs, r). (v # vs, r)) (parse_items n (tl rest))
          else if starts_with TRBrack rest then Some ([v], tl rest)
          else None)"
| "parse_members 0 ts = None"
| "parse_members (Suc n) [] = None"
| "parse_members (Suc n) (t # ts) =
     (case key_of t of
        None \<Rightarrow> None
      | Some k \<Rightarrow>
          if \<not> starts_with TColon ts then None
          else
            (case parse_value n (tl ts) of
               None \<Rightarrow> None
             | Some (v, rest) \<Rightarrow>
                 if starts_with TComma rest
                 then map_option (\<lambda>(kvs, r). ((k, v) # kvs, r)) (parse_members n (tl rest))
                 else if starts_with TRBrace rest then Some ([(k, v)], tl rest)
                 else None))"



definition json_read :: "string \<Rightarrow> json option" where
  "json_read s =
     (case lex (Suc (length s)) s of
        None \<Rightarrow> None
      | Some ts \<Rightarrow>
          (case parse_value (2 * length ts + 2) ts of
             None \<Rightarrow> None
           | Some (v, rest) \<Rightarrow> if rest = [] then Some v else None))"

section \<open>Concrete inputs\<close>

text \<open>Phase reports, a clock and environment, a network and a browser to run the model on.\<close>

definition ex_rep :: "string \<Rightarrow> string \<Rightarrow> rep" where
  "ex_rep phase result =
     \<lparr>rep_when = phase, rep_outcome = result, rep_duration = Some (1 / 4),
      rep_longrepr = (if result = ''failed'' then Some ''AssertionError'' else None)\<rparr>"

definition ex_sys :: sys where
  "ex_sys =
     \<lparr>now_iso = ''2026-02-16T00:49:11+05:30'', now_stamp = ''2026-02-16T004911+0530'',
      cwd = ''/work'',
      environ = [''BASE_URL'' \<mapsto> ''https://shop.example'', ''TEST_USER'' \<mapsto> ''  '',
                 ''TEST_PASS'' \<mapsto> ''secret''],
      python_version = ''3.12.1'', os_platform = ''Linux''\<rparr>"

definition ex_record :: "string \<Rightarrow> string \<Rightarrow> test_record" where
  "ex_record node result =
     \<lparr>run_id = ''run_2026-02-16T004911+0530'', run_started_at = ''2026-02-16T00:49:11+05:30'',
      recorded_at = ''2026-02-16T00:49:20+05:30'', nodeid = node, outcome = result,
      duration_seconds = 3 / 4, error = (if result = ''failed'' then Some ''AssertionError'' else None),
      environment = \<lparr>env_base_url = ''https://shop.example'', env_headless = ''true'',
                      env_python = ''3.12.1'', env_os = ''Linux''\<rparr>\<rparr>"

definition ex_urlparse :: "string \<Rightarrow> py_exn + parse_result" where
  "ex_urlparse url =
     (if url = ''https://shop.example''
      then Inr \<lparr>pr_scheme = ''https'', pr_hostname = Some ''shop.example'', pr_port = Inr None\<rparr>
      else if url = ''http://localhost:3000''
      then Inr \<lparr>pr_scheme = ''http'', pr_hostname = Some ''localhost'', pr_port = Inr (Some 3000)\<rparr>
      else Inl ValueError)"

text \<open>Only \<open>shop.example\<close> listens, on port 443; every other connection is refused.\<close>

definition ex_connect :: "string \<Rightarrow> nat \<Rightarrow> rat \<Rightarrow> py_exn + unit" where
  "ex_connect host port timeout_seconds =
     (if host = ''shop.example'' \<and> port = 443 then Inr () else Inl OSError)"

definition ex_perform :: "event list \<Rightarrow> event \<Rightarrow> py_exn option" where
  "ex_perform trace a = None"

text \<open>
  A test with its three phase reports, a test skipped in its setup, the state before
  \<open>pytest_configure\<close> and a per-test history file that holds a JSON string.
\<close>

definition ex_item_full :: item where
  "ex_item_full =
     \<lparr>item_nodeid = ''tests/test_a.py::test_x'',
      rep_by_phase = Some [''setup'' \<mapsto> ex_rep ''setup'' ''passed'',
                           ''call'' \<mapsto> ex_rep ''call'' ''passed'',
                           ''teardown'' \<mapsto> ex_rep ''teardown'' ''passed'']\<rparr>"

definition ex_item_skipped :: item where
  "ex_item_skipped =
     \<lparr>item_nodeid = ''tests/test_b.py::test_y'',
      rep_by_phase = Some [''setup'' \<mapsto> ex_rep ''setup'' ''skipped'']\<rparr>"

definition ex_state :: state where
  "ex_state = \<lparr>PYTEST_CONFIG = None, files = Map.empty, dirs = {}\<rparr>"

definition ex_history_path :: string where
  "ex_history_path = ''/work/reports/tests/tests__test_a.py__test_x.json''"

definition ex_corrupted :: fs where
  "ex_corrupted = [ex_history_path \<mapsto> [CHR 0x22] @ ''not a list'' @ [CHR 0x22]]"

section \<open>Theorems\<close>

subsection \<open>The outcome reduction\<close>

text \<open>
  C1. The final outcome is a function of the three phase outcomes, first match first: a
  failed setup, then a failed call, then a failed teardown give \<open>failed\<close>; otherwise a
  skipped setup or call gives \<open>skipped\<close>; otherwise \<open>passed\<close>. The record carries that
  value. (passed, failed, passed) gives \<open>failed\<close>, (skipped, absent, absent) gives
  \<open>skipped\<close> and (passed, passed, passed) gives \<open>passed\<close>.
\<close>

theorem reduction_rule:
  "final_outcome su ca td =
     (if phase_outcome su = Some ''failed'' then ''failed''
      else if phase_outcome ca = Some ''failed'' then ''failed''
      else if phase_outcome td = Some ''failed'' then ''failed''
      else if phase_outcome su = Some ''skipped'' \<or> phase_outcome ca = Some ''skipped''
        then ''skipped''
      else ''passed'')
   \<and> outcome (make_record sy config it) =
       final_outcome
         ((case rep_by_phase it of None \<Rightarrow> Map.empty | Some m \<Rightarrow> m) ''setup'')
         ((case rep_by_phase it of None \<Rightarrow> Map.empty | Some m \<Rightarrow> m) ''call'')
         ((case rep_by_phase it of None \<Rightarrow> Map.empty | Some m \<Rightarrow> m) ''teardown'')
   \<and> (rep_outcome a = ''passed'' \<and> rep_outcome b = ''failed'' \<and> rep_outcome c = ''passed''
        \<longrightarrow> final_outcome (Some a) (Some b) (Some c) = ''failed'')
   \<and> (rep_outcome a = ''skipped'' \<longrightarrow> final_outcome (Some a) None None = ''skipped'')
   \<and> (rep_outcome a = ''passed'' \<and> rep_outcome b = ''passed'' \<and> rep_outcome c = ''passed''
        \<longrightarrow> final_outcome (Some a) (Some b) (Some c) = ''passed'')"
  by (simp add: final_outcome_def phase_outcome_def make_record_def Let_def)

theorem reduction_rule_witness:
  "final_outcome
     (Some \<lparr>rep_when = ''setup'', rep_outcome = ''passed'', rep_duration = Some (1 / 10), rep_longrepr = None\<rparr>)
     (Some \<lparr>rep_when = ''call'', rep_outcome = ''failed'', rep_duration = Some (1 / 2), rep_longrepr = Some ''assert 1 == 2''\<rparr>)
     (Some \<lparr>rep_when = ''teardown'', rep_outcome = ''passed'', rep_duration = Some (1 / 10), rep_longrepr = None\<rparr>)
   = ''failed''"
  using reduction_rule
    [where a = "\<lparr>rep_when = ''setup'', rep_outcome = ''passed'', rep_duration = Some (1 / 10), rep_longrepr = None\<rparr>"
       and b = "\<lparr>rep_when = ''call'', rep_outcome = ''failed'', rep_duration = Some (1 / 2), rep_longrepr = Some ''assert 1 == 2''\<rparr>"
       and c = "\<lparr>rep_when = ''teardown'', rep_outcome = ''passed'', rep_duration = Some (1 / 10), rep_longrepr = None\<rparr>"]
  by (simp add: phase_outcome_def)

lemma phase_outcome_failed:
  "phase_outcome r = Some ''failed'' \<longleftrightarrow> (\<exists>x. r = Some x \<and> rep_outcome x = ''failed'')"
  by (cases r) (simp_all add: phase_outcome_def)

lemma final_outcome_failed:
  "final_outcome su ca td = ''failed'' \<longleftrightarrow>
     phase_outcome su = Some ''failed'' \<or> phase_outcome ca = Some ''failed'' \<or>
     phase_outcome td = Some ''failed''"
  by (simp add: final_outcome_def)

lemma first_failed_text_None:
  "first_failed_text rs = None \<longleftrightarrow> (\<forall>r\<in>set rs. phase_outcome r \<noteq> Some ''failed'')"
  by (induction rs) (simp_all add: phase_outcome_def split: option.splits)

lemma error_text_iff:
  "error_text su ca td \<noteq> None \<longleftrightarrow> final_outcome su ca td = ''failed''"
proof -
  have "first_failed_text [ca, su, td] \<noteq> None \<longleftrightarrow>
          phase_outcome su = Some ''failed'' \<or> phase_outcome ca = Some ''failed'' \<or>
          phase_outcome td = Some ''failed''"
    unfolding first_failed_text_None by auto
  then show ?thesis
    unfolding error_text_def final_outcome_failed by auto
qed

lemma error_text_call:
  "ca = Some x \<Longrightarrow> rep_outcome x = ''failed'' \<Longrightarrow> error_text su ca td = Some (failure_text x)"
  by (simp add: error_text_def final_outcome_failed phase_outcome_failed)

lemma error_text_setup:
  "phase_outcome ca \<noteq> Some ''failed'' \<Longrightarrow> su = Some x \<Longrightarrow> rep_outcome x = ''failed'' \<Longrightarrow>
   error_text su ca td = Some (failure_text x)"
  by (cases ca) (simp_all add: error_text_def final_outcome_failed phase_outcome_def)

lemma error_text_teardown:
  "phase_outcome ca \<noteq> Some ''failed'' \<Longrightarrow> phase_outcome su \<noteq> Some ''failed'' \<Longrightarrow>
   td = Some x \<Longrightarrow> rep_outcome x = ''failed'' \<Longrightarrow>
   error_text su ca td = Some (failure_text x)"
  by (cases ca; cases su) (simp_all add: error_text_def final_outcome_failed phase_outcome_def)

lemma make_record_error:
  "error (make_record sy config it) \<noteq> None \<longleftrightarrow> outcome (make_record sy config it) = ''failed''"
  by (simp only: make_record_def Let_def test_record.simps error_text_iff)

text \<open>
  C9. The error field is set exactly when the final outcome is \<open>failed\<close>. It is then the
  text of the first failed phase in the order call, setup, teardown; that text is
  \<open>str(longrepr)\<close>, or the fixed placeholder when the stringification raises.
\<close>

theorem error_field:
  "(error_text su ca td \<noteq> None \<longleftrightarrow> final_outcome su ca td = ''failed'')
   \<and> (error (make_record sy config it) \<noteq> None \<longleftrightarrow> outcome (make_record sy config it) = ''failed'')
   \<and> (\<forall>x. ca = Some x \<and> rep_outcome x = ''failed'' \<longrightarrow>
          error_text su ca td = Some (failure_text x))
   \<and> (\<forall>x. phase_outcome ca \<noteq> Some ''failed'' \<and> su = Some x \<and> rep_outcome x = ''failed'' \<longrightarrow>
          error_text su ca td = Some (failure_text x))
   \<and> (\<forall>x. phase_outcome ca \<noteq> Some ''failed'' \<and> phase_outcome su \<noteq> Some ''failed'' \<and>
          td = Some x \<and> rep_outcome x = ''failed'' \<longrightarrow>
          error_text su ca td = Some (failure_text x))
   \<and> (\<forall>x s. rep_longrepr x = Some s \<longrightarrow> failure_text x = s)
   \<and> (\<forall>x. rep_longrepr x = None \<longrightarrow>
          failure_text x = ''Test failed (unable to stringify longrepr).'')"
proof -
  have "\<forall>x s. rep_longrepr x = Some s \<longrightarrow> failure_text x = s"
    by (simp add: failure_text_def)
  moreover have "\<forall>x. rep_longrepr x = None \<longrightarrow>
      failure_text x = ''Test failed (unable to stringify longrepr).''"
    by (simp add: failure_text_def placeholder_def)
  ultimately show ?thesis
    using error_text_iff [of su ca td] make_record_error [of sy config it]
      error_text_call [of ca _ su td] error_text_setup [of ca su _ td]
      error_text_teardown [of ca su td]
    by blast
qed

theorem error_field_witness:
  "error_text
     (Some \<lparr>rep_when = ''setup'', rep_outcome = ''passed'', rep_duration = Some 0, rep_longrepr = None\<rparr>)
     (Some \<lparr>rep_when = ''call'', rep_outcome = ''failed'', rep_duration = Some 0, rep_longrepr = None\<rparr>)
     None
   = Some ''Test failed (unable to stringify longrepr).''"
  using error_field
    [where su = "Some \<lparr>rep_when = ''setup'', rep_outcome = ''passed'', rep_duration = Some 0, rep_longrepr = None\<rparr>"
       and ca = "Some \<lparr>rep_when = ''call'', rep_outcome = ''failed'', rep_duration = Some 0, rep_longrepr = None\<rparr>"
       and td = None]
  by simp

subsection \<open>The run summary\<close>

lemma count_outcome_length:
  "count_outcome v rs = int (length (filter (\<lambda>r. outcome r = v) rs))"
  by (induction rs) (simp_all add: count_outcome_def)

text \<open>
  C5. In the flushed summary \<open>passed\<close>, \<open>failed\<close> and \<open>skipped\<close> are the numbers of collected
  records with that outcome, \<open>total\<close> is the number of records and \<open>results\<close> is the
  collected list in order. The totals depend on the collected records only; they are
  computed when the summary is built and written to the run file.
\<close>

theorem summary_totals:
  "total (sum_totals (make_summary sy config ex)) = int (length (cfg_results config))
   \<and> passed (sum_totals (make_summary sy config ex)) =
       int (length (filter (\<lambda>r. outcome r = ''passed'') (cfg_results config)))
   \<and> failed (sum_totals (make_summary sy config ex)) =
       int (length (filter (\<lambda>r. outcome r = ''failed'') (cfg_results config)))
   \<and> skipped (sum_totals (make_summary sy config ex)) =
       int (length (filter (\<lambda>r. outcome r = ''skipped'') (cfg_results config)))
   \<and> sum_results (make_summary sy config ex) = cfg_results config
   \<and> (cfg_results config = cfg_results config' \<longrightarrow>
        sum_totals (make_summary sy config ex) = sum_totals (make_summary sy' config' ex'))
   \<and> pytest_sessionfinish dumps_indent sy config ex fls
         (cfg_reports_runs_dir config @ ''/'' @ cfg_run_id config @ ''.json'') =
       Some (dumps_indent (summary_json (make_summary sy config ex)))"
  by (simp add: make_summary_def Let_def count_outcome_length pytest_sessionfinish_def)

theorem summary_totals_witness:
  "sum_totals (make_summary ex_sys
      ((initial_config ex_sys)\<lparr>cfg_results :=
          [ex_record ''a'' ''passed'', ex_record ''b'' ''failed'', ex_record ''c'' ''skipped'',
           ex_record ''d'' ''passed'']\<rparr>) 1)
   = \<lparr>total = 4, passed = 2, failed = 1, skipped = 1\<rparr>"
  using summary_totals
    [where sy = ex_sys and ex = 1 and sy' = ex_sys and ex' = 1
       and config = "(initial_config ex_sys)\<lparr>cfg_results :=
          [ex_record ''a'' ''passed'', ex_record ''b'' ''failed'', ex_record ''c'' ''skipped'',
           ex_record ''d'' ''passed'']\<rparr>"
       and config' = "(initial_config ex_sys)\<lparr>cfg_results :=
          [ex_record ''a'' ''passed'', ex_record ''b'' ''failed'', ex_record ''c'' ''skipped'',
           ex_record ''d'' ''passed'']\<rparr>"]
  by (simp add: ex_record_def)

subsection \<open>The reachability probe\<close>

lemma reach_parse_fail: "up url = Inl e \<Longrightarrow> \<not> is_reachable up cc url t"
  by (simp add: is_reachable_def is_reachable_try_def)

lemma reach_no_host:
  "up url = Inr parsed \<Longrightarrow> pr_hostname parsed = None \<or> pr_hostname parsed = Some [] \<Longrightarrow>
   \<not> is_reachable up cc url t"
  by (auto simp add: is_reachable_def is_reachable_try_def)

lemma reach_port_fail:
  "up url = Inr parsed \<Longrightarrow> pr_port parsed = Inl e \<Longrightarrow> \<not> is_reachable up cc url t"
  by (simp add: is_reachable_def is_reachable_try_def split: option.splits)

lemma reach_connect:
  "up url = Inr parsed \<Longrightarrow> pr_hostname parsed = Some host \<Longrightarrow> host \<noteq> [] \<Longrightarrow>
   pr_port parsed = Inr p \<Longrightarrow>
   is_reachable up cc url t = (cc host (default_port parsed p) t = Inr ())"
  by (simp add: is_reachable_def is_reachable_try_def split: sum.splits)

lemma reach_try_fail: "is_reachable_try up cc url t = Inl e \<Longrightarrow> \<not> is_reachable up cc url t"
  by (simp add: is_reachable_def)

lemma reach_iff:
  "is_reachable up cc url t \<longleftrightarrow>
     (\<exists>parsed host p.
        up url = Inr parsed \<and> pr_hostname parsed = Some host \<and> host \<noteq> [] \<and>
        pr_port parsed = Inr p \<and> cc host (default_port parsed p) t = Inr ())"
proof (cases "up url")
  case (Inl e)
  then show ?thesis by (simp add: reach_parse_fail)
next
  case (Inr parsed)
  show ?thesis
  proof (cases "pr_hostname parsed = None \<or> pr_hostname parsed = Some []")
    case True
    with Inr show ?thesis by (auto simp add: reach_no_host)
  next
    case False
    then obtain host where host: "pr_hostname parsed = Some host" "host \<noteq> []"
      by auto
    show ?thesis
    proof (cases "pr_port parsed")
      case (Inl e)
      with Inr show ?thesis by (simp add: reach_port_fail)
    next
      case p: (Inr p)
      from reach_connect [of up url parsed host p cc t] Inr host p show ?thesis by simp
    qed
  qed
qed

text \<open>
  C6. \<open>_is_reachable\<close> returns a boolean for every URL. It is true exactly when the URL
  parses, has a non-empty host name and a well-formed port, and the connection to the host
  at the explicit port, or else at 443 for \<open>https\<close> and 80 otherwise, is made. Every
  exception of the body, a parse failure, a missing host name, a malformed port and a failed
  connection give false.
\<close>

theorem reachable_iff:
  "(is_reachable up cc url t \<longleftrightarrow>
      (\<exists>parsed host p.
         up url = Inr parsed \<and> pr_hostname parsed = Some host \<and> host \<noteq> [] \<and>
         pr_port parsed = Inr p \<and>
         cc host (default_port parsed p) t = Inr ()))
   \<and> (\<forall>e. is_reachable_try up cc url t = Inl e \<longrightarrow> \<not> is_reachable up cc url t)
   \<and> (\<forall>e. up url = Inl e \<longrightarrow> \<not> is_reachable up cc url t)
   \<and> (\<forall>parsed. up url = Inr parsed \<and> (pr_hostname parsed = None \<or> pr_hostname parsed = Some [])
        \<longrightarrow> \<not> is_reachable up cc url t)
   \<and> (\<forall>parsed e. up url = Inr parsed \<and> pr_port parsed = Inl e \<longrightarrow> \<not> is_reachable up cc url t)
   \<and> (\<forall>parsed host p e.
         up url = Inr parsed \<and> pr_hostname parsed = Some host \<and> pr_port parsed = Inr p \<and>
         cc host (default_port parsed p) t = Inl e
        \<longrightarrow> \<not> is_reachable up cc url t)
   \<and> (\<forall>parsed host.
         up url = Inr parsed \<and> pr_hostname parsed = Some host \<and> host \<noteq> [] \<and>
         pr_port parsed = Inr None
        \<longrightarrow> is_reachable up cc url t =
              (cc host (if pr_scheme parsed = ''https'' then 443 else 80) t = Inr ()))"
proof -
  have a: "\<forall>parsed host p e.
         up url = Inr parsed \<and> pr_hostname parsed = Some host \<and> pr_port parsed = Inr p \<and>
         cc host (default_port parsed p) t = Inl e
        \<longrightarrow> \<not> is_reachable up cc url t"
    by (simp add: reach_iff)
  have b: "\<forall>parsed host.
         up url = Inr parsed \<and> pr_hostname parsed = Some host \<and> host \<noteq> [] \<and>
         pr_port parsed = Inr None
        \<longrightarrow> is_reachable up cc url t =
              (cc host (if pr_scheme parsed = ''https'' then 443 else 80) t = Inr ())"
    using reach_connect [of up url _ _ None cc t] by (simp add: default_port_def)
  have c: "\<forall>parsed. up url = Inr parsed \<and> (pr_hostname parsed = None \<or> pr_hostname parsed = Some [])
        \<longrightarrow> \<not> is_reachable up cc url t"
    using reach_no_host [of up url] by blast
  have d: "\<forall>parsed e. up url = Inr parsed \<and> pr_port parsed = Inl e \<longrightarrow> \<not> is_reachable up cc url t"
    using reach_port_fail [of up url] by blast
  have e: "\<forall>e. is_reachable_try up cc url t = Inl e \<longrightarrow> \<not> is_reachable up cc url t"
    using reach_try_fail [of up cc url t] by blast
  have f: "\<forall>e. up url = Inl e \<longrightarrow> \<not> is_reachable up cc url t"
    using reach_parse_fail [of up url] by blast
  from reach_iff [of up cc url t] a b c d e f show ?thesis
    by blast
qed

theorem reachable_iff_witness:
  "is_reachable ex_urlparse ex_connect ''https://shop.example'' 2
   \<and> \<not> is_reachable ex_urlparse ex_connect ''http://localhost:3000'' 2
   \<and> \<not> is_reachable ex_urlparse ex_connect ''nonsense'' 2"
  using reachable_iff [of ex_urlparse ex_connect "''https://shop.example''" 2]
    reachable_iff [of ex_urlparse ex_connect "''http://localhost:3000''" 2]
    reachable_iff [of ex_urlparse ex_connect "''nonsense''" 2]
  by (simp add: ex_urlparse_def ex_connect_def default_port_def)

subsection \<open>The authenticated page\<close>

lemma sublist_unreachable_reason: "sublist url (unreachable_reason url)"
  unfolding unreachable_reason_def sublist_def by blast

text \<open>
  C7. When the base URL is unreachable, the fixture ends in a skip, not in an exception
  and not in a returned page, so the test body gets no page to run on; the reason contains
  the URL, and nothing but the probe has happened.
\<close>

theorem unreachable_skips:
  assumes "\<not> is_reachable up cc url 2"
  shows "logged_in_page up cc perform url cr = ([Probe url], Skipped (unreachable_reason url))
         \<and> sublist url (unreachable_reason url)
         \<and> (\<forall>e. snd (logged_in_page up cc perform url cr) \<noteq> Raised e)
         \<and> snd (logged_in_page up cc perform url cr) \<noteq> Returned
         \<and> Goto url \<notin> set (fst (logged_in_page up cc perform url cr))"
  using assms by (simp add: logged_in_page_def sublist_unreachable_reason)

theorem unreachable_skips_witness:
  "\<not> is_reachable ex_urlparse ex_connect ''http://localhost:3000'' 2
   \<and> logged_in_page ex_urlparse ex_connect ex_perform ''http://localhost:3000''
         \<lparr>username = ''alice'', password = ''secret''\<rparr>
       = ([Probe ''http://localhost:3000''],
          Skipped (''BASE_URL not reachable: http://localhost:3000. '' @
                   ''Start your local app (if using localhost) or set BASE_URL to a reachable staging/demo URL.''))"
proof -
  have h: "\<not> is_reachable ex_urlparse ex_connect ''http://localhost:3000'' 2"
    by (simp add: is_reachable_def is_reachable_try_def ex_urlparse_def ex_connect_def
          default_port_def)
  show ?thesis
    using h unreachable_skips [OF h, where perform = ex_perform and cr = "\<lparr>username = ''alice'', password = ''secret''\<rparr>"]
    by (simp add: unreachable_reason_def)
qed

lemma missing_reason_distinct: "missing_reason \<noteq> unreachable_reason u"
  by (simp add: missing_reason_def unreachable_reason_def)

lemma strip_Nil: "strip [] = []"
  by (simp add: strip_def)

text \<open>
  C8. When the user name or the password is empty (an absent variable reads as the empty
  string), the fixture ends in a skip and only the probe has happened: no navigation and
  no login. With the URL reachable the skip is the missing-credentials one, whose reason
  differs from the unreachable reason of every URL; the trace shows the check after the
  probe and before \<open>page.goto\<close>.
\<close>

theorem missing_credentials_skip:
  assumes "username cr = [] \<or> password cr = []"
  shows "(\<exists>reason. snd (logged_in_page up cc perform url cr) = Skipped reason)
         \<and> fst (logged_in_page up cc perform url cr) = [Probe url]
         \<and> (is_reachable up cc url 2 \<longrightarrow>
               logged_in_page up cc perform url cr = ([Probe url], Skipped missing_reason))
         \<and> (\<forall>u. missing_reason \<noteq> unreachable_reason u)
         \<and> (environ sy ''TEST_USER'' = None \<or> environ sy ''TEST_USER'' = Some []
               \<longrightarrow> username (credentials sy) = [])
         \<and> (environ sy ''TEST_PASS'' = None \<or> environ sy ''TEST_PASS'' = Some []
               \<longrightarrow> password (credentials sy) = [])"
  using assms
  by (auto simp add: logged_in_page_def missing_reason_distinct credentials_def getenv_def strip_Nil)

theorem missing_credentials_skip_witness:
  "logged_in_page ex_urlparse ex_connect ex_perform ''https://shop.example''
     \<lparr>username = [], password = ''secret''\<rparr>
   = ([Probe ''https://shop.example''],
      Skipped ''Missing TEST_USER/TEST_PASS in .env. Please set them before running UI tests.'')"
proof -
  have h: "username \<lparr>username = [], password = ''secret''\<rparr> = []
           \<or> password \<lparr>username = [], password = ''secret''\<rparr> = []"
    by simp
  have r: "is_reachable ex_urlparse ex_connect ''https://shop.example'' 2"
    by (simp add: is_reachable_def is_reachable_try_def ex_urlparse_def ex_connect_def
          default_port_def)
  show ?thesis
    using r missing_credentials_skip
      [OF h, where up = ex_urlparse and cc = ex_connect and url = "''https://shop.example''"
         and perform = ex_perform]
    by (simp add: missing_reason_def)
qed

lemma strip_all_space:
  assumes "\<forall>c\<in>set v. is_space c"
  shows "strip v = []"
  using assms by (auto simp add: strip_def dest: set_dropWhileD)

text \<open>
  C10. A credential variable set to whitespace only gives the same credentials as the
  variable being absent: the value is stripped to the empty string, and the fixture skips
  for missing credentials.
\<close>

theorem whitespace_is_absent:
  assumes "k = ''TEST_USER'' \<or> k = ''TEST_PASS''"
    and "environ sy k = Some v"
    and "\<forall>c\<in>set v. is_space c"
  shows "credentials sy = credentials (sy\<lparr>environ := (environ sy)(k := None)\<rparr>)
         \<and> (username (credentials sy) = [] \<or> password (credentials sy) = [])
         \<and> (\<exists>reason. snd (logged_in_page up cc perform url (credentials sy)) = Skipped reason)
         \<and> (is_reachable up cc url 2 \<longrightarrow>
               logged_in_page up cc perform url (credentials sy) =
                 ([Probe url], Skipped missing_reason))"
  using assms
  by (auto simp add: credentials_def getenv_def strip_all_space strip_Nil logged_in_page_def)

theorem whitespace_is_absent_witness:
  "credentials ex_sys = \<lparr>username = [], password = ''secret''\<rparr>
   \<and> credentials ex_sys = credentials (ex_sys\<lparr>environ := (environ ex_sys)(''TEST_USER'' := None)\<rparr>)
   \<and> logged_in_page ex_urlparse ex_connect ex_perform (base_url ex_sys) (credentials ex_sys)
       = ([Probe ''https://shop.example''],
          Skipped ''Missing TEST_USER/TEST_PASS in .env. Please set them before running UI tests.'')"
proof -
  have k: "''TEST_USER'' = ''TEST_USER'' \<or> ''TEST_USER'' = ''TEST_PASS''"
    by simp
  have e: "environ ex_sys ''TEST_USER'' = Some ''  ''"
    by (simp add: ex_sys_def)
  have w: "\<forall>c\<in>set ''  ''. is_space c"
    by (simp add: is_space_def)
  have r: "is_reachable ex_urlparse ex_connect (base_url ex_sys) 2"
    by (simp add: is_reachable_def is_reachable_try_def ex_urlparse_def ex_connect_def
          default_port_def base_url_def getenv_def ex_sys_def)
  have u: "base_url ex_sys = ''https://shop.example''"
    by (simp add: base_url_def getenv_def ex_sys_def)
  have p: "password (credentials ex_sys) = ''secret''"
    by (simp add: credentials_def getenv_def ex_sys_def strip_def is_space_def)
  show ?thesis
    using r u p whitespace_is_absent [OF k e w, where up = ex_urlparse and cc = ex_connect
      and perform = ex_perform and url = "base_url ex_sys"]
    by (auto simp add: missing_reason_def)
qed

subsection \<open>The per-test history file\<close>

lemma existing_data_after_append:
  "loads (dumps (JArr (existing_data loads fls p @ [r]))) = Some (JArr (existing_data loads fls p @ [r])) \<Longrightarrow>
   existing_data loads (append_json_array loads dumps fls p r) p = existing_data loads fls p @ [r]"
  by (simp add: existing_data_def append_json_array_def)

lemma append_json_array_at:
  "append_json_array loads dumps fls p r p = Some (dumps (JArr (existing_data loads fls p @ [r])))"
  by (simp add: append_json_array_def)

lemma append_all_extends:
  assumes "rs \<noteq> []"
    and "existing_data loads fls p = xs"
    and "\<And>k. 0 < k \<Longrightarrow> k < length rs \<Longrightarrow>
           loads (dumps (JArr (xs @ take k rs))) = Some (JArr (xs @ take k rs))"
  shows "append_all loads dumps fls p rs p = Some (dumps (JArr (xs @ rs)))"
  using assms
proof (induction rs arbitrary: fls xs)
  case Nil
  then show ?case by simp
next
  case (Cons r rs)
  show ?case
  proof (cases "rs = []")
    case True
    with Cons.prems(2) show ?thesis
      by (simp add: append_json_array_at)
  next
    case False
    then have "1 < length (r # rs)"
      by (cases rs) simp_all
    then have "loads (dumps (JArr (xs @ take 1 (r # rs)))) = Some (JArr (xs @ take 1 (r # rs)))"
      by (intro Cons.prems(3)) simp_all
    then have one: "loads (dumps (JArr (xs @ [r]))) = Some (JArr (xs @ [r]))"
      by simp
    have ex: "existing_data loads (append_json_array loads dumps fls p r) p = xs @ [r]"
      using existing_data_after_append [of loads dumps fls p r] one Cons.prems(2) by simp
    have rt: "loads (dumps (JArr ((xs @ [r]) @ take k rs))) = Some (JArr ((xs @ [r]) @ take k rs))"
      if "0 < k" "k < length rs" for k
    proof -
      have "loads (dumps (JArr (xs @ take (Suc k) (r # rs)))) =
              Some (JArr (xs @ take (Suc k) (r # rs)))"
        using that by (intro Cons.prems(3)) simp_all
      then show ?thesis by simp
    qed
    from Cons.IH [OF False ex rt] show ?thesis by simp
  qed
qed

lemma existing_data_corrupted:
  "fls p = Some text \<Longrightarrow> loads text = None \<or> (\<exists>j. loads text = Some j \<and> \<not> is_list j) \<Longrightarrow>
   existing_data loads fls p = []"
  by (auto simp add: existing_data_def)

text \<open>
  C4. A per-test history file whose content does not parse, or parses to something that is
  not a list, is started afresh: \<open>_append_json_array\<close> has no failing branch, after the
  first append the file is the written one-element array, and after N appends it is the
  written array of the N records in order (read back, it has N elements). The library's
  reader and writer are parameters; they are asked to read back the arrays this sequence of
  appends writes.
\<close>

theorem corrupted_history_recovers:
  assumes "fls p = Some prior"
    and "loads prior = None \<or> (\<exists>j. loads prior = Some j \<and> \<not> is_list j)"
    and "\<forall>k\<le>length rs. loads (dumps (JArr (r # take k rs))) = Some (JArr (r # take k rs))"
  shows "append_json_array loads dumps fls p r p = Some (dumps (JArr [r]))
         \<and> existing_data loads (append_json_array loads dumps fls p r) p = [r]
         \<and> append_all loads dumps fls p (r # rs) p = Some (dumps (JArr (r # rs)))
         \<and> existing_data loads (append_all loads dumps fls p (r # rs)) p = r # rs
         \<and> length (existing_data loads (append_all loads dumps fls p (r # rs)) p) = Suc (length rs)"
proof -
  have e0: "existing_data loads fls p = []"
    using assms(1,2) by (rule existing_data_corrupted)
  have first: "append_json_array loads dumps fls p r p = Some (dumps (JArr [r]))"
    by (simp add: append_json_array_at e0)
  have rt0: "loads (dumps (JArr [r])) = Some (JArr [r])"
    using assms(3) [rule_format, of 0] by simp
  have first_read: "existing_data loads (append_json_array loads dumps fls p r) p = [r]"
    using existing_data_after_append [of loads dumps fls p r] rt0 e0 by simp
  have rt: "loads (dumps (JArr ([] @ take k (r # rs)))) = Some (JArr ([] @ take k (r # rs)))"
    if "0 < k" "k < length (r # rs)" for k
  proof (cases k)
    case 0
    with that show ?thesis by simp
  next
    case (Suc m)
    with that have "m \<le> length rs" by simp
    then have "loads (dumps (JArr (r # take m rs))) = Some (JArr (r # take m rs))"
      using assms(3) [rule_format, of m] by simp
    with Suc show ?thesis by simp
  qed
  have all: "append_all loads dumps fls p (r # rs) p = Some (dumps (JArr (r # rs)))"
    using append_all_extends [of "r # rs" loads fls p "[]" dumps, OF _ e0 rt] by simp
  have rtN: "loads (dumps (JArr (r # rs))) = Some (JArr (r # rs))"
    using assms(3) [rule_format, of "length rs"] by simp
  have all_read: "existing_data loads (append_all loads dumps fls p (r # rs)) p = r # rs"
    using all rtN by (simp add: existing_data_def)
  from first first_read all all_read show ?thesis by simp
qed

theorem corrupted_history_recovers_witness:
  "existing_data json_read
     (append_json_array json_read json_write ex_corrupted ex_history_path
        (record_json (ex_record ''tests/test_a.py::test_x'' ''failed'')))
     ex_history_path
   = [record_json (ex_record ''tests/test_a.py::test_x'' ''failed'')]
   \<and> existing_data json_read
       (append_all json_read json_write ex_corrupted ex_history_path
          [record_json (ex_record ''tests/test_a.py::test_x'' ''failed''),
           record_json (ex_record ''tests/test_a.py::test_x'' ''passed'')])
       ex_history_path
     = [record_json (ex_record ''tests/test_a.py::test_x'' ''failed''),
        record_json (ex_record ''tests/test_a.py::test_x'' ''passed'')]"
proof -
  let ?r = "record_json (ex_record ''tests/test_a.py::test_x'' ''failed'')"
  let ?r' = "record_json (ex_record ''tests/test_a.py::test_x'' ''passed'')"
  have f: "ex_corrupted ex_history_path = Some ([CHR 0x22] @ ''not a list'' @ [CHR 0x22])"
    by (simp add: ex_corrupted_def)
  have parsed: "json_read ([CHR 0x22] @ ''not a list'' @ [CHR 0x22]) = Some (JStr ''not a list'')"
    by code_simp
  have c: "json_read ([CHR 0x22] @ ''not a list'' @ [CHR 0x22]) = None
           \<or> (\<exists>j. json_read ([CHR 0x22] @ ''not a list'' @ [CHR 0x22]) = Some j \<and> \<not> is_list j)"
    using parsed by simp
  have rt1: "json_read (json_write (JArr [?r])) = Some (JArr [?r])"
    by code_simp
  have rt2: "json_read (json_write (JArr [?r, ?r'])) = Some (JArr [?r, ?r'])"
    by code_simp
  have rt: "\<forall>k\<le>length [?r']. json_read (json_write (JArr (?r # take k [?r']))) =
              Some (JArr (?r # take k [?r']))"
  proof (intro allI impI)
    fix k :: nat
    assume "k \<le> length [?r']"
    then have "k = 0 \<or> k = 1" by auto
    then show "json_read (json_write (JArr (?r # take k [?r']))) = Some (JArr (?r # take k [?r']))"
      using rt1 rt2 by auto
  qed
  from corrupted_history_recovers
    [where fls = ex_corrupted and p = ex_history_path and loads = json_read
       and dumps = json_write and r = "?r" and rs = "[?r']"
       and prior = "[CHR 0x22] @ ''not a list'' @ [CHR 0x22]", OF f c rt]
  show ?thesis
    by simp
qed

subsection \<open>One record per test\<close>

lemma make_record_results:
  "make_record s (config\<lparr>cfg_results := rs\<rparr>) it = make_record s config it"
  by (simp add: make_record_def)

lemma per_test_file_results:
  "per_test_file (config\<lparr>cfg_results := rs\<rparr>) it = per_test_file config it"
  by (simp add: per_test_file_def)

lemma teardown_config:
  "PYTEST_CONFIG st = Some config \<Longrightarrow>
   PYTEST_CONFIG (pytest_runtest_teardown loads di d s st it) =
     Some (config\<lparr>cfg_results := cfg_results config @ [make_record s config it]\<rparr>)"
  by (simp add: pytest_runtest_teardown_def Let_def)

lemma teardown_files:
  "PYTEST_CONFIG st = Some config \<Longrightarrow>
   files (pytest_runtest_teardown loads di d s st it) =
     append_jsonl d
       (append_json_array loads di (files st) (per_test_file config it)
          (record_json (make_record s config it)))
       (cfg_reports_history_jsonl config) (record_json (make_record s config it))"
  by (simp add: pytest_runtest_teardown_def Let_def)

lemma teardown_history:
  assumes "PYTEST_CONFIG st = Some config"
    and "per_test_file config it \<noteq> cfg_reports_history_jsonl config"
  shows "files (pytest_runtest_teardown loads di d s st it) (cfg_reports_history_jsonl config) =
           Some ((case files st (cfg_reports_history_jsonl config) of None \<Rightarrow> [] | Some t \<Rightarrow> t) @
                 d (record_json (make_record s config it)) @ [CHR 0x0A])"
  using assms(2) by (simp add: teardown_files [OF assms(1)] append_jsonl_def append_json_array_def)

lemma teardown_per_test:
  assumes "PYTEST_CONFIG st = Some config"
    and "per_test_file config it \<noteq> cfg_reports_history_jsonl config"
  shows "files (pytest_runtest_teardown loads di d s st it) (per_test_file config it) =
           Some (di (JArr (existing_data loads (files st) (per_test_file config it) @
                           [record_json (make_record s config it)])))"
  using assms(2) by (simp add: teardown_files [OF assms(1)] append_jsonl_def append_json_array_def)

lemma run_tests_config:
  "PYTEST_CONFIG st = Some config \<Longrightarrow>
   PYTEST_CONFIG (run_tests loads di d st tests) =
     Some (config\<lparr>cfg_results :=
             cfg_results config @ map (\<lambda>(s, it). make_record s config it) tests\<rparr>)"
proof (induction tests arbitrary: st config)
  case Nil
  then show ?case by simp
next
  case (Cons x tests)
  obtain s it where x: "x = (s, it)" by (cases x)
  from teardown_config [OF Cons.prems, of loads di d s it]
  have "PYTEST_CONFIG (run_tests loads di d (pytest_runtest_teardown loads di d s st it) tests) =
          Some (config\<lparr>cfg_results := cfg_results config @ [make_record s config it]\<rparr>
                 \<lparr>cfg_results :=
                    cfg_results (config\<lparr>cfg_results := cfg_results config @ [make_record s config it]\<rparr>) @
                    map (\<lambda>(s', it'). make_record s'
                           (config\<lparr>cfg_results := cfg_results config @ [make_record s config it]\<rparr>) it')
                      tests\<rparr>)"
    by (rule Cons.IH)
  then show ?case
    by (simp add: x make_record_results)
qed

lemma run_tests_history:
  "PYTEST_CONFIG st = Some config \<Longrightarrow>
   \<forall>x\<in>set tests. per_test_file config (snd x) \<noteq> cfg_reports_history_jsonl config \<Longrightarrow>
   (case files (run_tests loads di d st tests) (cfg_reports_history_jsonl config) of
      None \<Rightarrow> [] | Some t \<Rightarrow> t) =
     (case files st (cfg_reports_history_jsonl config) of None \<Rightarrow> [] | Some t \<Rightarrow> t) @
     concat (map (\<lambda>(s, it). d (record_json (make_record s config it)) @ [CHR 0x0A]) tests)"
proof (induction tests arbitrary: st config)
  case Nil
  then show ?case by simp
next
  case (Cons x tests)
  obtain s it where x: "x = (s, it)" by (cases x)
  let ?st = "pytest_runtest_teardown loads di d s st it"
  let ?config = "config\<lparr>cfg_results := cfg_results config @ [make_record s config it]\<rparr>"
  have c: "PYTEST_CONFIG ?st = Some ?config"
    by (rule teardown_config [OF Cons.prems(1)])
  have ne: "per_test_file config it \<noteq> cfg_reports_history_jsonl config"
    using Cons.prems(2) x by simp
  have rest: "\<forall>x\<in>set tests. per_test_file ?config (snd x) \<noteq> cfg_reports_history_jsonl ?config"
    using Cons.prems(2) by (simp add: per_test_file_results)
  have h: "files ?st (cfg_reports_history_jsonl config) =
             Some ((case files st (cfg_reports_history_jsonl config) of None \<Rightarrow> [] | Some t \<Rightarrow> t) @
                   d (record_json (make_record s config it)) @ [CHR 0x0A])"
    by (rule teardown_history [OF Cons.prems(1) ne])
  from Cons.IH [OF c rest] h show ?case
    by (simp add: x make_record_results)
qed

lemma run_tests_snoc:
  "run_tests loads di d st (pre @ [(s, it)]) =
     pytest_runtest_teardown loads di d s (run_tests loads di d st pre) it"
proof (induction pre arbitrary: st)
  case Nil
  show ?case by simp
next
  case (Cons x pre)
  obtain s' it' where x: "x = (s', it')" by (cases x)
  show ?case by (simp add: x Cons.IH)
qed

lemma per_test_file_not_history:
  "per_test_file (initial_config s) it \<noteq> cfg_reports_history_jsonl (initial_config s)"
proof
  assume "per_test_file (initial_config s) it = cfg_reports_history_jsonl (initial_config s)"
  then have "last (per_test_file (initial_config s) it) =
               last (cfg_reports_history_jsonl (initial_config s))"
    by simp
  then show False
    by (simp add: per_test_file_def initial_config_def Let_def)
qed

lemma configure_config: "PYTEST_CONFIG (pytest_configure s st) = Some (initial_config s)"
  by (simp add: pytest_configure_def ensure_dir_def Let_def)

lemma configure_files: "files (pytest_configure s st) = files st"
  by (simp add: pytest_configure_def ensure_dir_def Let_def)

lemma makereport_stores:
  "item_nodeid (pytest_runtest_makereport it r) = item_nodeid it
   \<and> (\<exists>m. rep_by_phase (pytest_runtest_makereport it r) = Some m \<and> m (rep_when r) = Some r)"
  by (simp add: pytest_runtest_makereport_def Let_def)

lemma teardown_unconfigured:
  "PYTEST_CONFIG st = None \<Longrightarrow> pytest_runtest_teardown loads di d s st it = st"
  by (simp add: pytest_runtest_teardown_def)

text \<open>
  C3. In a run (\<open>pytest_configure\<close>, then the teardown hook once for each executed test)
  the in-memory results are exactly one record per test, in execution order and with the
  test's node id, whatever phase reports the test carries; the history log grows by exactly
  one line per test; and the teardown of a test leaves in its per-test file the array read
  there before, extended by that test's record.
\<close>

theorem one_record_per_test:
  "(let config = initial_config sy0;
        final = run_tests loads di d (pytest_configure sy0 st0) tests;
        records = map (\<lambda>(s, it). make_record s config it) tests;
        history = cfg_reports_history_jsonl config
    in map_option cfg_results (PYTEST_CONFIG final) = Some records
       \<and> length records = length tests
       \<and> map nodeid records = map (\<lambda>(s, it). item_nodeid it) tests
       \<and> (case files final history of None \<Rightarrow> [] | Some t \<Rightarrow> t) =
           (case files st0 history of None \<Rightarrow> [] | Some t \<Rightarrow> t) @
           concat (map (\<lambda>r. d (record_json r) @ [CHR 0x0A]) records)
       \<and> (\<forall>pre s it. tests = pre @ [(s, it)] \<longrightarrow>
             files final (per_test_file config it) =
               Some (di (JArr (existing_data loads
                                 (files (run_tests loads di d (pytest_configure sy0 st0) pre))
                                 (per_test_file config it) @
                               [record_json (make_record s config it)])))))"
proof -
  let ?config = "initial_config sy0"
  let ?st1 = "pytest_configure sy0 st0"
  let ?records = "map (\<lambda>(s, it). make_record s ?config it) tests"
  have c: "PYTEST_CONFIG ?st1 = Some ?config"
    by (rule configure_config)
  have r0: "cfg_results ?config = []"
    by (simp add: initial_config_def Let_def)
  have a: "map_option cfg_results (PYTEST_CONFIG (run_tests loads di d ?st1 tests)) = Some ?records"
    by (simp add: run_tests_config [OF c] r0)
  have b: "map nodeid ?records = map (\<lambda>(s, it). item_nodeid it) tests"
    by (simp add: make_record_def Let_def split_def)
  have ne: "\<forall>x\<in>set tests. per_test_file ?config (snd x) \<noteq> cfg_reports_history_jsonl ?config"
    by (simp add: per_test_file_not_history)
  have h: "(case files (run_tests loads di d ?st1 tests) (cfg_reports_history_jsonl ?config) of
              None \<Rightarrow> [] | Some t \<Rightarrow> t) =
             (case files st0 (cfg_reports_history_jsonl ?config) of None \<Rightarrow> [] | Some t \<Rightarrow> t) @
             concat (map (\<lambda>r. d (record_json r) @ [CHR 0x0A]) ?records)"
    by (simp add: run_tests_history [OF c ne] configure_files map_map comp_def split_def)
  have p: "files (run_tests loads di d ?st1 tests) (per_test_file ?config it) =
             Some (di (JArr (existing_data loads (files (run_tests loads di d ?st1 pre))
                               (per_test_file ?config it) @
                             [record_json (make_record s ?config it)])))"
    if t: "tests = pre @ [(s, it)]" for pre s it
  proof -
    let ?config' = "?config\<lparr>cfg_results :=
        cfg_results ?config @ map (\<lambda>(s, it). make_record s ?config it) pre\<rparr>"
    have c': "PYTEST_CONFIG (run_tests loads di d ?st1 pre) = Some ?config'"
      by (rule run_tests_config [OF c])
    have ne': "per_test_file ?config' it \<noteq> cfg_reports_history_jsonl ?config'"
      using per_test_file_not_history [of sy0 it] by (simp add: per_test_file_results)
    from teardown_per_test [OF c' ne', of loads di d s] show ?thesis
      by (simp add: t run_tests_snoc per_test_file_results make_record_results)
  qed
  from a b h p show ?thesis
    by (simp add: Let_def)
qed

theorem one_record_per_test_witness:
  "map_option (map (\<lambda>r. (nodeid r, outcome r)) \<circ> cfg_results)
     (PYTEST_CONFIG
        (run_tests json_read json_write json_write (pytest_configure ex_sys ex_state)
           [(ex_sys, ex_item_full), (ex_sys, ex_item_skipped)]))
   = Some [(''tests/test_a.py::test_x'', ''passed''), (''tests/test_b.py::test_y'', ''skipped'')]"
proof -
  have o1: "outcome (make_record ex_sys (initial_config ex_sys) ex_item_full) = ''passed''"
    by (simp add: make_record_def Let_def ex_item_full_def ex_rep_def final_outcome_def phase_outcome_def)
  have o2: "outcome (make_record ex_sys (initial_config ex_sys) ex_item_skipped) = ''skipped''"
    by (simp add: make_record_def Let_def ex_item_skipped_def ex_rep_def final_outcome_def phase_outcome_def)
  have n1: "nodeid (make_record ex_sys (initial_config ex_sys) ex_item_full) = ''tests/test_a.py::test_x''"
    by (simp add: make_record_def Let_def ex_item_full_def)
  have n2: "nodeid (make_record ex_sys (initial_config ex_sys) ex_item_skipped) = ''tests/test_b.py::test_y''"
    by (simp add: make_record_def Let_def ex_item_skipped_def)
  from one_record_per_test
    [of ex_sys json_read json_write json_write ex_state
        "[(ex_sys, ex_item_full), (ex_sys, ex_item_skipped)]"]
  have "map_option cfg_results
          (PYTEST_CONFIG
             (run_tests json_read json_write json_write (pytest_configure ex_sys ex_state)
                [(ex_sys, ex_item_full), (ex_sys, ex_item_skipped)]))
        = Some [make_record ex_sys (initial_config ex_sys) ex_item_full,
                make_record ex_sys (initial_config ex_sys) ex_item_skipped]"
    by (simp add: Let_def)
  then show ?thesis
    by (auto simp add: o1 o2 n1 n2)
qed

subsection \<open>A skipped test whose teardown fails\<close>

lemma record_setup_skipped:
  assumes "rep_outcome setup_rep = ''skipped''"
  shows "outcome (make_record s config
           (pytest_runtest_makereport \<lparr>item_nodeid = node, rep_by_phase = None\<rparr>
              (setup_rep\<lparr>rep_when := ''setup''\<rparr>))) = ''skipped''
         \<and> error (make_record s config
           (pytest_runtest_makereport \<lparr>item_nodeid = node, rep_by_phase = None\<rparr>
              (setup_rep\<lparr>rep_when := ''setup''\<rparr>))) = None
         \<and> nodeid (make_record s config
           (pytest_runtest_makereport \<lparr>item_nodeid = node, rep_by_phase = None\<rparr>
              (setup_rep\<lparr>rep_when := ''setup''\<rparr>))) = node"
  using assms
  by (simp add: pytest_runtest_makereport_def make_record_def Let_def final_outcome_def
        error_text_def phase_outcome_def)

lemma record_call_skipped:
  assumes "rep_outcome setup_rep = ''passed''" and "rep_outcome call_rep = ''skipped''"
  shows "outcome (make_record s config
           (pytest_runtest_makereport
              (pytest_runtest_makereport \<lparr>item_nodeid = node, rep_by_phase = None\<rparr>
                 (setup_rep\<lparr>rep_when := ''setup''\<rparr>))
              (call_rep\<lparr>rep_when := ''call''\<rparr>))) = ''skipped''
         \<and> error (make_record s config
           (pytest_runtest_makereport
              (pytest_runtest_makereport \<lparr>item_nodeid = node, rep_by_phase = None\<rparr>
                 (setup_rep\<lparr>rep_when := ''setup''\<rparr>))
              (call_rep\<lparr>rep_when := ''call''\<rparr>))) = None
         \<and> nodeid (make_record s config
           (pytest_runtest_makereport
              (pytest_runtest_makereport \<lparr>item_nodeid = node, rep_by_phase = None\<rparr>
                 (setup_rep\<lparr>rep_when := ''setup''\<rparr>))
              (call_rep\<lparr>rep_when := ''call''\<rparr>))) = node"
  using assms
  by (simp add: pytest_runtest_makereport_def make_record_def Let_def final_outcome_def
        error_text_def phase_outcome_def)

lemma protocol_teardown_stored:
  "\<exists>m. rep_by_phase (snd (runtestprotocol loads di d s st node setup_rep call_rep teardown_rep)) = Some m
       \<and> m ''teardown'' = Some (teardown_rep\<lparr>rep_when := ''teardown''\<rparr>)"
  by (simp add: runtestprotocol_def pytest_runtest_makereport_def Let_def)

lemma protocol_state_ignores_teardown_report:
  "fst (runtestprotocol loads di d s st node setup_rep call_rep teardown_rep) =
   fst (runtestprotocol loads di d s st node setup_rep call_rep teardown_rep')"
  by (simp add: runtestprotocol_def Let_def)

text \<open>
  C2. For a test whose setup is skipped, or whose call is skipped after a passed setup,
  the one record that the run appends has the outcome \<open>skipped\<close> and no error text,
  whatever the teardown phase reports, a failure included: the teardown report is attached
  to the item only after the hook has built the record, so the skip is what the reduction
  sees.
\<close>

theorem skip_outranks_teardown_failure:
  assumes "PYTEST_CONFIG st = Some config"
    and "rep_outcome setup_rep = ''skipped'' \<or>
         (rep_outcome setup_rep = ''passed'' \<and> rep_outcome call_rep = ''skipped'')"
  shows "(\<exists>r. map_option cfg_results
                 (PYTEST_CONFIG
                    (fst (runtestprotocol loads di d s st node setup_rep call_rep teardown_rep))) =
                 Some (cfg_results config @ [r])
              \<and> nodeid r = node \<and> outcome r = ''skipped'' \<and> error r = None)
         \<and> (\<exists>m. rep_by_phase
                   (snd (runtestprotocol loads di d s st node setup_rep call_rep teardown_rep)) =
                   Some m
                \<and> m ''teardown'' = Some (teardown_rep\<lparr>rep_when := ''teardown''\<rparr>))"
proof -
  let ?it1 = "pytest_runtest_makereport \<lparr>item_nodeid = node, rep_by_phase = None\<rparr>
                (setup_rep\<lparr>rep_when := ''setup''\<rparr>)"
  let ?it2 = "pytest_runtest_makereport ?it1 (call_rep\<lparr>rep_when := ''call''\<rparr>)"
  from assms(2) show ?thesis
  proof
    assume su: "rep_outcome setup_rep = ''skipped''"
    then have st': "fst (runtestprotocol loads di d s st node setup_rep call_rep teardown_rep) =
                      pytest_runtest_teardown loads di d s st ?it1"
      by (simp add: runtestprotocol_def Let_def)
    have "map_option cfg_results
            (PYTEST_CONFIG
               (fst (runtestprotocol loads di d s st node setup_rep call_rep teardown_rep))) =
            Some (cfg_results config @ [make_record s config ?it1])"
      by (simp add: st' teardown_config [OF assms(1)])
    with record_setup_skipped [OF su, of s config node] protocol_teardown_stored
    show ?thesis by blast
  next
    assume "rep_outcome setup_rep = ''passed'' \<and> rep_outcome call_rep = ''skipped''"
    then have su: "rep_outcome setup_rep = ''passed''" and ca: "rep_outcome call_rep = ''skipped''"
      by simp_all
    from su have st': "fst (runtestprotocol loads di d s st node setup_rep call_rep teardown_rep) =
                      pytest_runtest_teardown loads di d s st ?it2"
      by (simp add: runtestprotocol_def Let_def)
    have "map_option cfg_results
            (PYTEST_CONFIG
               (fst (runtestprotocol loads di d s st node setup_rep call_rep teardown_rep))) =
            Some (cfg_results config @ [make_record s config ?it2])"
      by (simp add: st' teardown_config [OF assms(1)])
    with record_call_skipped [OF su ca, of s config node] protocol_teardown_stored
    show ?thesis by blast
  qed
qed

theorem skip_outranks_teardown_failure_witness:
  "rep_outcome (ex_rep ''teardown'' ''failed'') = ''failed''
   \<and> map_option (map (\<lambda>r. (nodeid r, outcome r, error r)) \<circ> cfg_results)
       (PYTEST_CONFIG
          (fst (runtestprotocol json_read json_write json_write ex_sys
                  (pytest_configure ex_sys ex_state) ''tests/test_b.py::test_y''
                  (ex_rep ''setup'' ''skipped'') (ex_rep ''call'' ''passed'')
                  (ex_rep ''teardown'' ''failed''))))
     = Some [(''tests/test_b.py::test_y'', ''skipped'', None)]"
proof -
  have c: "PYTEST_CONFIG (pytest_configure ex_sys ex_state) = Some (initial_config ex_sys)"
    by (rule configure_config)
  have h: "rep_outcome (ex_rep ''setup'' ''skipped'') = ''skipped'' \<or>
           (rep_outcome (ex_rep ''setup'' ''skipped'') = ''passed'' \<and>
            rep_outcome (ex_rep ''call'' ''passed'') = ''skipped'')"
    by (simp add: ex_rep_def)
  have e: "cfg_results (initial_config ex_sys) = []"
    by (simp add: initial_config_def Let_def)
  have f: "rep_outcome (ex_rep ''teardown'' ''failed'') = ''failed''"
    by (simp add: ex_rep_def)
  from skip_outranks_teardown_failure
    [OF c h, where loads = json_read and di = json_write and d = json_write and s = ex_sys
       and node = "''tests/test_b.py::test_y''" and teardown_rep = "ex_rep ''teardown'' ''failed''"]
  obtain r where
    "map_option cfg_results
       (PYTEST_CONFIG
          (fst (runtestprotocol json_read json_write json_write ex_sys
                  (pytest_configure ex_sys ex_state) ''tests/test_b.py::test_y''
                  (ex_rep ''setup'' ''skipped'') (ex_rep ''call'' ''passed'')
                  (ex_rep ''teardown'' ''failed'')))) = Some [r]"
    and "nodeid r = ''tests/test_b.py::test_y''" and "outcome r = ''skipped''" and "error r = None"
    unfolding e by auto
  with f show ?thesis
    by auto
qed

end
